theory Spec2Isabelle
  imports Complex_Main
begin

section \<open>The audio player component (src/components/AudioPlayer.tsx)\<close>

text \<open>
  The component is a React function component. Every render runs the function body once
  and creates fresh closures \<open>playAudio\<close>, \<open>pauseAudio\<close>, \<open>stopAudio\<close>, \<open>visualize\<close> that
  close over the props and over the value the state cell \<open>isPlaying\<close> had in that render.
  The refs (\<open>sourceRef\<close>, \<open>pausedTimeRef\<close>, ...) are mutable cells shared by all renders.
  The model therefore separates
  \<^item> \<open>render\<close>: what one render closes over (props and the rendered \<open>isPlaying\<close>);
  \<^item> \<open>world\<close>: the refs, the state cell that \<open>setIsPlaying\<close> writes, and the part of
    the platform the component drives (audio context, node store, connections, animation
    frame queue, canvas).

  Times are exact reals: the rounding of IEEE doubles is not modelled.
\<close>

subsection \<open>Data\<close>

record audio_buffer =
  duration :: real

datatype ctx_handle = Ctx

record render =
  audioBuffer :: "audio_buffer option"
  audioContext :: "ctx_handle option"
  bassBoost :: real
  isPlaying :: bool

datatype exn = InvalidStateError | RangeError | TypeError

datatype ctx_state = Suspended | Running

datatype biquad_type = Lowpass | Lowshelf

text \<open>
  An \<open>AudioBufferSourceNode\<close>. \<open>startOffset\<close> is \<open>None\<close> until \<open>start\<close> has been called and
  then holds the offset passed to it; \<open>startedAt\<close> is the context time of that call.
\<close>

record source_node =
  buffer :: "audio_buffer option"
  startOffset :: "real option"
  startedAt :: real
  stopped :: bool
  onended :: bool
  endedFired :: bool

text \<open>
  A \<open>BiquadFilterNode\<close>. \<open>gainTarget\<close> holds the automation scheduled by
  \<open>gain.setTargetAtTime (target, startTime, timeConstant)\<close>.
\<close>

record filter_node =
  ftype :: biquad_type
  frequency :: real
  gain :: real
  gainTarget :: "(real \<times> real \<times> real) option"

record analyser_node =
  fftSize :: nat

datatype node = SourceNode nat | FilterNode nat | AnalyserNode nat | Destination

record world =
  isPlayingState :: bool
  sourceRef :: "nat option"
  bassFilterRef :: "nat option"
  analyserRef :: "nat option"
  startTimeRef :: real
  pausedTimeRef :: real
  animationFrameRef :: nat
  canvasRef :: "bool option"
  canvas2d :: bool
  currentTime :: real
  ctxState :: ctx_state
  legacyStop :: bool
  sources :: "source_node list"
  filters :: "filter_node list"
  analysers :: "analyser_node list"
  edges :: "(node \<times> node) list"
  frames :: "(nat \<times> render) list"
  lastFrame :: nat
  paints :: "bool list"

text \<open>
  \<open>canvasRef\<close> is \<open>None\<close> while no canvas element is mounted; \<open>Some ok\<close> is a mounted
  canvas, \<open>ok\<close> telling whether \<open>getContext('2d')\<close> returns a context, which is the
  platform's \<open>canvas2d\<close>.
  \<open>legacyStop\<close> distinguishes the two platform behaviours of a second \<open>stop()\<close>.
  \<open>frames\<close> is the queue of callbacks registered with \<open>requestAnimationFrame\<close>, each with
  its handle and the render whose \<open>draw\<close> closure it is; \<open>lastFrame\<close> is the last handle
  issued. \<open>paints\<close> records every executed rendering pass of \<open>draw\<close> (lines 125-146),
  with the value the state cell \<open>isPlaying\<close> had while it ran.
\<close>

subsection \<open>The platform: numbers, audio nodes, animation frames\<close>

text \<open>
  JavaScript's \<open>x % d\<close> on numbers: the remainder of the division truncated towards
  zero, so that the result has the sign of \<open>x\<close>; \<open>NaN\<close> (here \<open>None\<close>) when \<open>d\<close> is zero.
\<close>

definition js_rem :: "real \<Rightarrow> real \<Rightarrow> real option" where
  "js_rem x d =
     (if d = 0 then None
      else Some (x - d * of_int (if 0 \<le> x / d then \<lfloor>x / d\<rfloor> else \<lceil>x / d\<rceil>)))"

definition resume :: "world \<Rightarrow> world" where
  "resume w = w\<lparr>ctxState := Running\<rparr>"

definition createBufferSource :: "world \<Rightarrow> nat \<times> world" where
  "createBufferSource w =
     (length (sources w),
      w\<lparr>sources := sources w @
           [\<lparr>buffer = None, startOffset = None, startedAt = 0, stopped = False,
             onended = False, endedFired = False\<rparr>]\<rparr>)"

definition createBiquadFilter :: "world \<Rightarrow> nat \<times> world" where
  "createBiquadFilter w =
     (length (filters w),
      w\<lparr>filters := filters w @
           [\<lparr>ftype = Lowpass, frequency = 350, gain = 0, gainTarget = None\<rparr>]\<rparr>)"

definition createAnalyser :: "world \<Rightarrow> nat \<times> world" where
  "createAnalyser w =
     (length (analysers w), w\<lparr>analysers := analysers w @ [\<lparr>fftSize = 2048\<rparr>]\<rparr>)"

definition connect :: "node \<Rightarrow> node \<Rightarrow> world \<Rightarrow> world" where
  "connect a b w = (if (a, b) \<in> set (edges w) then w else w\<lparr>edges := edges w @ [(a, b)]\<rparr>)"

text \<open>\<open>disconnect()\<close> without arguments removes every outgoing connection of the node.\<close>

definition disconnect :: "node \<Rightarrow> world \<Rightarrow> world" where
  "disconnect a w = w\<lparr>edges := filter (\<lambda>e. fst e \<noteq> a) (edges w)\<rparr>"

text \<open>
  \<open>source.start(0, offset)\<close>: a \<open>NaN\<close> offset is a \<open>TypeError\<close>, a negative one a
  \<open>RangeError\<close>, a second \<open>start\<close> an \<open>InvalidStateError\<close>. A handle always denotes a
  node of the store; the branch for a handle outside the store changes nothing.
\<close>

definition start :: "nat \<Rightarrow> real option \<Rightarrow> world \<Rightarrow> exn + world" where
  "start k offset w =
     (case offset of
        None \<Rightarrow> Inl TypeError
      | Some off \<Rightarrow>
          if off < 0 then Inl RangeError
          else if k < length (sources w) then
            (if startOffset (sources w ! k) \<noteq> None then Inl InvalidStateError
             else Inr (w\<lparr>sources := (sources w)
                        [k := (sources w ! k)\<lparr>startOffset := Some off,
                                               startedAt := currentTime w\<rparr>]\<rparr>))
          else Inr w)"

text \<open>
  \<open>source.stop()\<close>: an \<open>InvalidStateError\<close> on a source that was never started; on a
  source already stopped it is a no-op in the current standard and an
  \<open>InvalidStateError\<close> on platforms with \<open>legacyStop\<close>.
\<close>

definition stop :: "nat \<Rightarrow> world \<Rightarrow> exn + world" where
  "stop k w =
     (if k < length (sources w) then
        (if startOffset (sources w ! k) = None then Inl InvalidStateError
         else if stopped (sources w ! k) then
           (if legacyStop w then Inl InvalidStateError else Inr w)
         else Inr (w\<lparr>sources := (sources w)[k := (sources w ! k)\<lparr>stopped := True\<rparr>]\<rparr>))
      else Inr w)"

definition setTargetAtTime :: "nat \<Rightarrow> real \<Rightarrow> real \<Rightarrow> real \<Rightarrow> world \<Rightarrow> world" where
  "setTargetAtTime f target startTime timeConstant w =
     (if f < length (filters w) then
        w\<lparr>filters := (filters w)
             [f := (filters w ! f)\<lparr>gainTarget := Some (target, startTime, timeConstant)\<rparr>]\<rparr>
      else w)"

definition requestAnimationFrame :: "render \<Rightarrow> world \<Rightarrow> nat \<times> world" where
  "requestAnimationFrame r w =
     (Suc (lastFrame w),
      w\<lparr>frames := frames w @ [(Suc (lastFrame w), r)], lastFrame := Suc (lastFrame w)\<rparr>)"

definition cancelAnimationFrame :: "nat \<Rightarrow> world \<Rightarrow> world" where
  "cancelAnimationFrame h w = w\<lparr>frames := filter (\<lambda>f. fst f \<noteq> h) (frames w)\<rparr>"

subsection \<open>The component's functions\<close>

definition setIsPlaying :: "bool \<Rightarrow> world \<Rightarrow> world" where
  "setIsPlaying b w = w\<lparr>isPlayingState := b\<rparr>"

text \<open>
  \<open>draw\<close> (lines 119-147). \<open>isPlaying\<close> is the constant of the render that created the
  closure, not the state cell. The rendering pass itself (lines 125-146) is recorded in
  \<open>paints\<close>.
\<close>

definition draw :: "render \<Rightarrow> world \<Rightarrow> world" where
  "draw r w =
     (if \<not> isPlaying r then w
      else
        let (h, w1) = requestAnimationFrame r w;
            w2 = w1\<lparr>animationFrameRef := h\<rparr>
        in if analyserRef w2 = None then w2
           else w2\<lparr>paints := paints w2 @ [isPlayingState w2]\<rparr>)"

text \<open>\<open>visualize\<close> (lines 109-150).\<close>

definition visualize :: "render \<Rightarrow> world \<Rightarrow> world" where
  "visualize r w =
     (if analyserRef w = None \<or> canvasRef w = None then w
      else if canvasRef w = Some False then w
      else draw r w)"

text \<open>
  The body of \<open>source.onended\<close> (lines 70-78), for the buffer its closure captured.
\<close>

definition onendedHandler :: "audio_buffer \<Rightarrow> world \<Rightarrow> world" where
  "onendedHandler b w =
     (let elapsed = currentTime w - startTimeRef w
      in if elapsed \<ge> duration b
         then (setIsPlaying False w)\<lparr>pausedTimeRef := 0\<rparr>
         else w)"

text \<open>Lines 43-62 of \<open>playAudio\<close>: the nodes, their parameters, the connections, the refs.\<close>

definition buildGraph :: "render \<Rightarrow> audio_buffer \<Rightarrow> world \<Rightarrow> nat \<times> world" where
  "buildGraph r b w =
     (let (s, w1) = createBufferSource w;
          w2 = w1\<lparr>sources := (sources w1)[s := (sources w1 ! s)\<lparr>buffer := Some b\<rparr>]\<rparr>;
          (f, w3) = createBiquadFilter w2;
          w4 = w3\<lparr>filters := (filters w3)
                 [f := (filters w3 ! f)\<lparr>ftype := Lowshelf, frequency := 200,
                                         gain := bassBoost r * 1.5\<rparr>]\<rparr>;
          (a, w5) = createAnalyser w4;
          w6 = w5\<lparr>analysers := (analysers w5)[a := (analysers w5 ! a)\<lparr>fftSize := 256\<rparr>]\<rparr>;
          w7 = connect (SourceNode s) (FilterNode f) w6;
          w8 = connect (FilterNode f) (AnalyserNode a) w7;
          w9 = connect (AnalyserNode a) Destination w8
      in (s, w9\<lparr>sourceRef := Some s, bassFilterRef := Some f, analyserRef := Some a\<rparr>))"

text \<open>
  \<open>playAudio\<close> (lines 35-81). The result is the exception thrown, if any, and the world
  left behind; an exception of \<open>source.start\<close> skips the rest of the function.
\<close>

definition playAudio :: "render \<Rightarrow> world \<Rightarrow> exn option \<times> world" where
  "playAudio r w =
     (case audioBuffer r of
        None \<Rightarrow> (None, w)
      | Some b \<Rightarrow>
         (case audioContext r of
            None \<Rightarrow> (None, w)
          | Some c \<Rightarrow>
             let w0 = (if ctxState w = Suspended then resume w else w);
                 (s, w1) = buildGraph r b w0;
                 offset = js_rem (pausedTimeRef w1) (duration b)
             in (case start s offset w1 of
                   Inl e \<Rightarrow> (Some e, w1)
                 | Inr w2 \<Rightarrow>
                    let w3 = w2\<lparr>startTimeRef := currentTime w2 - the offset\<rparr>;
                        w4 = setIsPlaying True w3;
                        w5 = w4\<lparr>sources := (sources w4)
                                 [s := (sources w4 ! s)\<lparr>onended := True\<rparr>]\<rparr>
                    in (None, visualize r w5))))"

text \<open>
  \<open>pauseAudio\<close> (lines 83-93). \<open>source.stop()\<close> is its first statement and is not
  guarded: when it throws, nothing has been changed.
\<close>

definition pauseAudio :: "render \<Rightarrow> world \<Rightarrow> exn option \<times> world" where
  "pauseAudio r w =
     (case sourceRef w of
        None \<Rightarrow> (None, w)
      | Some s \<Rightarrow>
         if isPlaying r \<and> audioContext r \<noteq> None then
           (case stop s w of
              Inl e \<Rightarrow> (Some e, w)
            | Inr w1 \<Rightarrow>
               let w2 = disconnect (SourceNode s) w1;
                   w3 = w2\<lparr>pausedTimeRef := currentTime w2 - startTimeRef w2\<rparr>;
                   w4 = setIsPlaying False w3
               in (None, if animationFrameRef w4 \<noteq> 0
                         then cancelAnimationFrame (animationFrameRef w4) w4 else w4))
         else (None, w))"

text \<open>
  \<open>stopAudio\<close> (lines 95-107). The \<open>try\<close>/\<open>catch\<close> swallows whatever \<open>source.stop()\<close>
  throws.
\<close>

definition stopAudio :: "world \<Rightarrow> exn option \<times> world" where
  "stopAudio w =
     (let w1 = (case sourceRef w of
                  None \<Rightarrow> w
                | Some s \<Rightarrow>
                   disconnect (SourceNode s)
                     (case stop s w of Inl e \<Rightarrow> w | Inr w' \<Rightarrow> w'));
          w2 = (if animationFrameRef w1 \<noteq> 0
                then cancelAnimationFrame (animationFrameRef w1) w1 else w1);
          w3 = setIsPlaying False w2
      in (None, w3\<lparr>pausedTimeRef := 0\<rparr>))"

text \<open>The effect on \<open>[audioBuffer]\<close> (lines 21-25): it runs when a new buffer arrives.\<close>

definition audioBufferEffect :: "world \<Rightarrow> exn option \<times> world" where
  "audioBufferEffect w =
     (case stopAudio w of
        (Some e, w1) \<Rightarrow> (Some e, w1)
      | (None, w1) \<Rightarrow> (None, w1\<lparr>pausedTimeRef := 0\<rparr>))"

text \<open>The effect on \<open>[bassBoost, audioContext]\<close> (lines 28-33).\<close>

definition bassBoostEffect :: "render \<Rightarrow> world \<Rightarrow> world" where
  "bassBoostEffect r w =
     (case bassFilterRef w of
        None \<Rightarrow> w
      | Some f \<Rightarrow>
         if audioContext r \<noteq> None
         then setTargetAtTime f (bassBoost r * 1.5) (currentTime w) 0.1 w
         else w)"

subsection \<open>The component in its environment\<close>

text \<open>
  React renders again after every event that touched the state, so the closures that the
  next event runs see the state cell's current value.
\<close>

definition rerender :: "render \<Rightarrow> world \<Rightarrow> render" where
  "rerender r w = r\<lparr>isPlaying := isPlayingState w\<rparr>"

text \<open>
  The canvas is part of the output only while there is a buffer (lines 165-187); React
  fills \<open>canvasRef\<close> when it commits a render.
\<close>

definition commit :: "render \<Rightarrow> world \<Rightarrow> world" where
  "commit r w = w\<lparr>canvasRef := (if audioBuffer r = None then None else Some (canvas2d w))\<rparr>"

text \<open>
  The platform dispatches \<open>ended\<close> to a source once: after \<open>stop()\<close>, or when the buffer
  has been played to its end.
\<close>

definition endedDue :: "source_node \<Rightarrow> real \<Rightarrow> bool" where
  "endedDue n now =
     (case startOffset n of
        None \<Rightarrow> False
      | Some off \<Rightarrow>
         (case buffer n of
            None \<Rightarrow> stopped n
          | Some b \<Rightarrow> stopped n \<or> startedAt n + (duration b - off) \<le> now))"

definition dispatchEnded :: "nat \<Rightarrow> world \<Rightarrow> world" where
  "dispatchEnded k w =
     (if k < length (sources w) then
        (let n = sources w ! k
         in if endedFired n \<or> \<not> endedDue n (currentTime w) then w
            else
              let w1 = w\<lparr>sources := (sources w)[k := n\<lparr>endedFired := True\<rparr>]\<rparr>
              in (case buffer n of
                    None \<Rightarrow> w1
                  | Some b \<Rightarrow> if onended n then onendedHandler b w1 else w1))
      else w)"

text \<open>
  The events the component reacts to. The one button slot of lines 190-211 carries
  \<open>playAudio\<close> in a render with \<open>isPlaying\<close> false and \<open>pauseAudio\<close> otherwise, and is
  absent while there is no buffer. \<open>Elapse\<close> lets the context's clock advance.
\<close>

datatype event =
    PlayPauseClick
  | Ended nat
  | AnimationFrame
  | NewBuffer "audio_buffer option"
  | SetBassBoost real
  | SetContext "ctx_handle option"
  | Elapse real

fun step :: "event \<Rightarrow> render \<times> world \<Rightarrow> render \<times> world" where
  "step PlayPauseClick (r, w) =
     (if audioBuffer r = None then (r, w)
      else
        let w1 = snd (if \<not> isPlaying r then playAudio r w else pauseAudio r w)
        in (rerender r w1, w1))"
| "step (Ended k) (r, w) = (let w1 = dispatchEnded k w in (rerender r w1, w1))"
| "step AnimationFrame (r, w) =
     (case frames w of
        [] \<Rightarrow> (r, w)
      | f # fs \<Rightarrow> (let w1 = draw (snd f) (w\<lparr>frames := fs\<rparr>) in (rerender r w1, w1)))"
| "step (NewBuffer b) (r, w) =
     (let r1 = r\<lparr>audioBuffer := b\<rparr>;
          w1 = snd (audioBufferEffect (commit r1 w))
      in (rerender r1 w1, w1))"
| "step (SetBassBoost l) (r, w) =
     (let r1 = r\<lparr>bassBoost := l\<rparr> in (r1, bassBoostEffect r1 w))"
| "step (SetContext c) (r, w) =
     (let r1 = r\<lparr>audioContext := c\<rparr> in (r1, bassBoostEffect r1 w))"
| "step (Elapse dt) (r, w) = (r, w\<lparr>currentTime := currentTime w + max 0 dt\<rparr>)"

fun run :: "event list \<Rightarrow> render \<times> world \<Rightarrow> render \<times> world" where
  "run [] c = c"
| "run (e # es) c = run es (step e c)"

text \<open>
  The world before the component is mounted: the refs at the values given to \<open>useRef\<close>,
  the state cell at the value given to \<open>useState\<close>, an audio context without nodes whose
  clock shows \<open>t\<close>, no animation frame requested.
\<close>

definition platform0 :: "real \<Rightarrow> ctx_state \<Rightarrow> bool \<Rightarrow> bool \<Rightarrow> world" where
  "platform0 t st lg cv =
     \<lparr>isPlayingState = False, sourceRef = None, bassFilterRef = None, analyserRef = None,
      startTimeRef = 0, pausedTimeRef = 0, animationFrameRef = 0, canvasRef = None,
      canvas2d = cv, currentTime = t, ctxState = st, legacyStop = lg, sources = [],
      filters = [], analysers = [], edges = [], frames = [], lastFrame = 0, paints = []\<rparr>"

text \<open>Mounting renders once and then runs both effects.\<close>

definition mount ::
  "audio_buffer option \<Rightarrow> ctx_handle option \<Rightarrow> real \<Rightarrow> world \<Rightarrow> render \<times> world" where
  "mount b c l w =
     (let r = \<lparr>audioBuffer = b, audioContext = c, bassBoost = l, isPlaying = isPlayingState w\<rparr>;
          w1 = snd (audioBufferEffect (commit r w));
          w2 = bassBoostEffect r w1
      in (rerender r w2, w2))"

text \<open>The offset the source held by \<open>sourceRef\<close> was started with.\<close>

definition startedOffset :: "world \<Rightarrow> real option" where
  "startedOffset w =
     (case sourceRef w of
        None \<Rightarrow> None
      | Some s \<Rightarrow> if s < length (sources w) then startOffset (sources w ! s) else None)"

subsection \<open>What \<open>stopAudio\<close> leaves behind\<close>

text \<open>
  The three parts of the world that \<open>stopAudio\<close> rewrites, as functions of the world it
  is called in: the source held by \<open>sourceRef\<close> is marked stopped if it was started, its
  outgoing connections are removed, and the frame named by \<open>animationFrameRef\<close> is taken
  out of the queue.
\<close>

definition haltedSources :: "world \<Rightarrow> source_node list" where
  "haltedSources w =
     (case sourceRef w of
        None \<Rightarrow> sources w
      | Some s \<Rightarrow>
         if s < length (sources w) \<and> startOffset (sources w ! s) \<noteq> None
         then (sources w)[s := (sources w ! s)\<lparr>stopped := True\<rparr>] else sources w)"

definition cutEdges :: "world \<Rightarrow> (node \<times> node) list" where
  "cutEdges w =
     (case sourceRef w of
        None \<Rightarrow> edges w
      | Some s \<Rightarrow> filter (\<lambda>e. fst e \<noteq> SourceNode s) (edges w))"

definition keptFrames :: "world \<Rightarrow> (nat \<times> render) list" where
  "keptFrames w =
     (if animationFrameRef w \<noteq> 0
      then filter (\<lambda>f. fst f \<noteq> animationFrameRef w) (frames w) else frames w)"

subsection \<open>Auxiliary notions for the properties\<close>

text \<open>
  The world in which \<open>playAudio\<close> calls \<open>visualize\<close> when \<open>source.start\<close> accepted the
  offset \<open>off\<close>: the graph is built, the new source is started from \<open>off\<close> and carries
  the \<open>onended\<close> callback, \<open>startTimeRef\<close> is the clock minus \<open>off\<close>, the state cell is
  true.
\<close>

definition started :: "render \<Rightarrow> audio_buffer \<Rightarrow> real \<Rightarrow> world \<Rightarrow> world" where
  "started r b off w =
     (let w1 = snd (buildGraph r b (if ctxState w = Suspended then resume w else w))
      in w1\<lparr>startTimeRef := currentTime w - off,
             isPlayingState := True,
             sources := sources w @
               [\<lparr>buffer = Some b, startOffset = Some off, startedAt = currentTime w,
                 stopped = False, onended = True, endedFired = False\<rparr>]\<rparr>)"

text \<open>The connections that leave a node.\<close>

definition outgoing :: "node \<Rightarrow> world \<Rightarrow> (node \<times> node) list" where
  "outgoing n w = filter (\<lambda>e. fst e = n) (edges w)"

subsection \<open>A worked example\<close>

text \<open>
  A buffer of 5 seconds, bass level 10, a running context whose clock shows 0. The
  component is mounted, Play is clicked (\<open>examplePlayed\<close>), Pause is clicked at 2 seconds
  (\<open>examplePaused\<close>) and Play again at 3 seconds (\<open>exampleResumed\<close>); in
  \<open>exampleEnded\<close> the \<open>ended\<close> event that the pause provoked is dispatched at 2.01
  seconds, before the second Play (\<open>exampleResumedLater\<close>). In
  \<open>exampleReplaced\<close> a buffer of 3 seconds arrives at 2 seconds instead, while the first
  one plays. In \<open>exampleLatePause\<close> the Pause click is handled at 5.5 seconds, after the
  buffer has run out and before \<open>ended\<close> has been dispatched.
\<close>

definition exampleBuffer :: audio_buffer where
  "exampleBuffer = \<lparr>duration = 5\<rparr>"

definition exampleRender :: render where
  "exampleRender =
     \<lparr>audioBuffer = Some exampleBuffer, audioContext = Some Ctx, bassBoost = 10,
      isPlaying = False\<rparr>"

definition exampleMounted :: "render \<times> world" where
  "exampleMounted = mount (Some exampleBuffer) (Some Ctx) 10 (platform0 0 Running False True)"

definition examplePlayed :: world where
  "examplePlayed = snd (playAudio exampleRender (snd exampleMounted))"

definition examplePaused :: world where
  "examplePaused =
     snd (pauseAudio (rerender exampleRender examplePlayed) (examplePlayed\<lparr>currentTime := 2\<rparr>))"

definition exampleResumed :: world where
  "exampleResumed =
     snd (playAudio (rerender exampleRender examplePaused) (examplePaused\<lparr>currentTime := 3\<rparr>))"

definition exampleEnded :: world where
  "exampleEnded = dispatchEnded 0 (examplePaused\<lparr>currentTime := 2.01\<rparr>)"

definition exampleResumedLater :: world where
  "exampleResumedLater =
     snd (playAudio (rerender exampleRender exampleEnded) (exampleEnded\<lparr>currentTime := 3\<rparr>))"

definition exampleReplaced :: "render \<times> world" where
  "exampleReplaced =
     step (NewBuffer (Some \<lparr>duration = 3\<rparr>))
       (rerender exampleRender examplePlayed, examplePlayed\<lparr>currentTime := 2\<rparr>)"

definition exampleLatePause :: "render \<times> world" where
  "exampleLatePause = run [PlayPauseClick, Elapse 5.5, PlayPauseClick] exampleMounted"

section \<open>Properties\<close>

subsection \<open>Play without a buffer or without an audio context\<close>

text \<open>
  Claim C8. \<open>playAudio\<close> called in a render without a buffer or without an audio context
  returns at its first line: nothing is thrown and the world (state cell, refs, node
  store, connections) is exactly what it was.
\<close>

theorem playAudio_not_ready:
  "audioBuffer r = None \<or> audioContext r = None \<Longrightarrow> playAudio r w = (None, w)"
  by (auto simp: playAudio_def split: option.splits)

theorem playAudio_not_ready_witness:
  "(audioBuffer \<lparr>audioBuffer = None, audioContext = Some Ctx, bassBoost = 3,
                isPlaying = False\<rparr> = None
      \<or> audioContext \<lparr>audioBuffer = None, audioContext = Some Ctx, bassBoost = 3,
                      isPlaying = False\<rparr> = None)
   \<and> playAudio \<lparr>audioBuffer = None, audioContext = Some Ctx, bassBoost = 3,
                isPlaying = False\<rparr>
        (platform0 0 Running False True) = (None, platform0 0 Running False True)"
  using playAudio_not_ready
    [of "\<lparr>audioBuffer = None, audioContext = Some Ctx, bassBoost = 3, isPlaying = False\<rparr>"
        "platform0 0 Running False True"]
  by simp

subsection \<open>Pause while not playing\<close>

text \<open>
  Claim C10. \<open>pauseAudio\<close> called in a render whose \<open>isPlaying\<close> is false, or while
  \<open>sourceRef\<close> holds no node, does nothing at all: nothing is stopped, disconnected or
  cancelled, and the state cell and every ref keep their values.
\<close>

theorem pauseAudio_not_playing:
  "\<not> isPlaying r \<or> sourceRef w = None \<Longrightarrow> pauseAudio r w = (None, w)"
  by (auto simp: pauseAudio_def split: option.splits)

theorem pauseAudio_not_playing_witness:
  "isPlaying \<lparr>audioBuffer = Some \<lparr>duration = 5\<rparr>, audioContext = Some Ctx,
               bassBoost = 0, isPlaying = False\<rparr> = False
   \<and> pauseAudio \<lparr>audioBuffer = Some \<lparr>duration = 5\<rparr>, audioContext = Some Ctx,
                 bassBoost = 0, isPlaying = False\<rparr>
        ((platform0 2 Running False True)\<lparr>sourceRef := Some 0\<rparr>)
      = (None, (platform0 2 Running False True)\<lparr>sourceRef := Some 0\<rparr>)"
  using pauseAudio_not_playing
    [of "\<lparr>audioBuffer = Some \<lparr>duration = 5\<rparr>, audioContext = Some Ctx,
          bassBoost = 0, isPlaying = False\<rparr>"
        "(platform0 2 Running False True)\<lparr>sourceRef := Some 0\<rparr>"]
  by simp

subsection \<open>The end-of-stream callback\<close>

text \<open>
  Claim C3. The callback registered on \<open>source.onended\<close> recomputes the elapsed time as
  the context's clock minus \<open>startTimeRef\<close>. Exactly when that is at least the buffer's
  duration it sets the state cell \<open>isPlaying\<close> to false and \<open>pausedTimeRef\<close> to 0, and
  changes nothing else; when the elapsed time is smaller it changes nothing.
\<close>

theorem onended_natural_completion:
  "(duration b \<le> currentTime w - startTimeRef w \<longrightarrow>
      onendedHandler b w = w\<lparr>isPlayingState := False, pausedTimeRef := 0\<rparr>)
   \<and> (currentTime w - startTimeRef w < duration b \<longrightarrow> onendedHandler b w = w)"
  by (simp add: onendedHandler_def setIsPlaying_def Let_def)

theorem onended_natural_completion_witness:
  "duration \<lparr>duration = 3\<rparr>
     \<le> currentTime ((platform0 3 Running False True)\<lparr>isPlayingState := True\<rparr>)
        - startTimeRef ((platform0 3 Running False True)\<lparr>isPlayingState := True\<rparr>)
   \<and> onendedHandler \<lparr>duration = 3\<rparr> ((platform0 3 Running False True)\<lparr>isPlayingState := True\<rparr>)
      = (platform0 3 Running False True)\<lparr>isPlayingState := True\<rparr>
          \<lparr>isPlayingState := False, pausedTimeRef := 0\<rparr>
   \<and> currentTime ((platform0 2 Running False True)\<lparr>pausedTimeRef := 2\<rparr>)
        - startTimeRef ((platform0 2 Running False True)\<lparr>pausedTimeRef := 2\<rparr>)
       < duration \<lparr>duration = 3\<rparr>
   \<and> onendedHandler \<lparr>duration = 3\<rparr> ((platform0 2 Running False True)\<lparr>pausedTimeRef := 2\<rparr>)
      = (platform0 2 Running False True)\<lparr>pausedTimeRef := 2\<rparr>"
  using onended_natural_completion
    [of "\<lparr>duration = 3\<rparr>" "(platform0 3 Running False True)\<lparr>isPlayingState := True\<rparr>"]
    onended_natural_completion
    [of "\<lparr>duration = 3\<rparr>" "(platform0 2 Running False True)\<lparr>pausedTimeRef := 2\<rparr>"]
  by (simp add: platform0_def)

subsection \<open>Stopping twice\<close>

lemma stop_caught_cases:
  "(case stop s w of Inl e \<Rightarrow> w | Inr w' \<Rightarrow> w') =
     (if s < length (sources w) \<and> startOffset (sources w ! s) \<noteq> None
         \<and> \<not> stopped (sources w ! s)
      then w\<lparr>sources := (sources w)[s := (sources w ! s)\<lparr>stopped := True\<rparr>]\<rparr> else w)"
  by (simp add: stop_def del: not_None_eq)

lemma list_update_stopped_same:
  "s < length xs \<Longrightarrow> stopped (xs ! s) \<Longrightarrow> xs[s := (xs ! s)\<lparr>stopped := True\<rparr>] = xs"
  by (simp add: list_update_same_conv)

lemma stopAudio_fst: "fst (stopAudio w) = None"
  by (simp add: stopAudio_def Let_def)

lemma stopAudio_snd:
  "snd (stopAudio w) =
     w\<lparr>sources := haltedSources w, edges := cutEdges w, frames := keptFrames w,
       isPlayingState := False, pausedTimeRef := 0\<rparr>"
proof (cases "sourceRef w")
  case None
  then show ?thesis
    by (simp add: stopAudio_def Let_def haltedSources_def cutEdges_def keptFrames_def
        cancelAnimationFrame_def setIsPlaying_def)
next
  case (Some s)
  then show ?thesis
    by (simp add: stopAudio_def Let_def haltedSources_def cutEdges_def keptFrames_def
        cancelAnimationFrame_def setIsPlaying_def stop_caught_cases disconnect_def
        list_update_stopped_same del: not_None_eq)
qed

lemma haltedSources_idem:
  "sourceRef w' = sourceRef w \<Longrightarrow> sources w' = haltedSources w \<Longrightarrow>
   haltedSources w' = haltedSources w"
  by (cases "sourceRef w") (simp_all add: haltedSources_def del: not_None_eq)

lemma cutEdges_idem:
  "sourceRef w' = sourceRef w \<Longrightarrow> edges w' = cutEdges w \<Longrightarrow> cutEdges w' = cutEdges w"
  by (cases "sourceRef w") (simp_all add: cutEdges_def)

lemma keptFrames_idem:
  "animationFrameRef w' = animationFrameRef w \<Longrightarrow> frames w' = keptFrames w \<Longrightarrow>
   keptFrames w' = keptFrames w"
  by (simp add: keptFrames_def)

text \<open>
  Claim C9. \<open>stopAudio\<close> never throws, whatever the source held by \<open>sourceRef\<close> is
  (never started, playing, already stopped, on either kind of platform): the exception
  of \<open>source.stop()\<close> is caught. Called twice in a row, the second call throws nothing
  and returns the world the first call left, in which \<open>isPlaying\<close> is false and
  \<open>pausedTimeRef\<close> is 0.
\<close>

theorem stopAudio_twice:
  "fst (stopAudio w) = None
   \<and> fst (stopAudio (snd (stopAudio w))) = None
   \<and> snd (stopAudio (snd (stopAudio w))) = snd (stopAudio w)
   \<and> isPlayingState (snd (stopAudio (snd (stopAudio w)))) = False
   \<and> pausedTimeRef (snd (stopAudio (snd (stopAudio w)))) = 0"
proof -
  let ?w1 = "snd (stopAudio w)"
  have w1: "?w1 = w\<lparr>sources := haltedSources w, edges := cutEdges w, frames := keptFrames w,
       isPlayingState := False, pausedTimeRef := 0\<rparr>"
    by (rule stopAudio_snd)
  have h: "haltedSources ?w1 = haltedSources w"
    by (rule haltedSources_idem) (simp_all add: w1)
  have c: "cutEdges ?w1 = cutEdges w"
    by (rule cutEdges_idem) (simp_all add: w1)
  have k: "keptFrames ?w1 = keptFrames w"
    by (rule keptFrames_idem) (simp_all add: w1)
  have "snd (stopAudio ?w1) = ?w1\<lparr>sources := haltedSources ?w1, edges := cutEdges ?w1,
       frames := keptFrames ?w1, isPlayingState := False, pausedTimeRef := 0\<rparr>"
    by (rule stopAudio_snd)
  also have "\<dots> = ?w1"
    unfolding h c k by (simp add: w1)
  finally have idem: "snd (stopAudio ?w1) = ?w1" .
  show ?thesis
    by (simp add: stopAudio_fst idem) (simp add: w1)
qed

subsection \<open>What the functions change\<close>

lemma connect_keeps:
  "sources (connect a b w) = sources w" "filters (connect a b w) = filters w"
  "analysers (connect a b w) = analysers w" "frames (connect a b w) = frames w"
  "paints (connect a b w) = paints w" "pausedTimeRef (connect a b w) = pausedTimeRef w"
  "startTimeRef (connect a b w) = startTimeRef w" "currentTime (connect a b w) = currentTime w"
  "isPlayingState (connect a b w) = isPlayingState w"
  "animationFrameRef (connect a b w) = animationFrameRef w"
  "canvasRef (connect a b w) = canvasRef w" "lastFrame (connect a b w) = lastFrame w"
  "legacyStop (connect a b w) = legacyStop w" "ctxState (connect a b w) = ctxState w"
  "canvas2d (connect a b w) = canvas2d w"
  by (simp_all add: connect_def)

lemma buildGraph_fst: "fst (buildGraph r b w) = length (sources w)"
  by (simp add: buildGraph_def createBufferSource_def createBiquadFilter_def
      createAnalyser_def connect_keeps Let_def split_def)

lemma buildGraph_sources:
  "sources (snd (buildGraph r b w)) = sources w @
     [\<lparr>buffer = Some b, startOffset = None, startedAt = 0, stopped = False,
       onended = False, endedFired = False\<rparr>]"
  by (simp add: buildGraph_def createBufferSource_def createBiquadFilter_def
      createAnalyser_def connect_keeps Let_def split_def)

lemma buildGraph_filters:
  "filters (snd (buildGraph r b w)) = filters w @
     [\<lparr>ftype = Lowshelf, frequency = 200, gain = bassBoost r * 1.5, gainTarget = None\<rparr>]"
  by (simp add: buildGraph_def createBufferSource_def createBiquadFilter_def
      createAnalyser_def connect_keeps Let_def split_def)

lemma buildGraph_refs:
  "sourceRef (snd (buildGraph r b w)) = Some (length (sources w))"
  "bassFilterRef (snd (buildGraph r b w)) = Some (length (filters w))"
  "analyserRef (snd (buildGraph r b w)) = Some (length (analysers w))"
  by (simp_all add: buildGraph_def createBufferSource_def createBiquadFilter_def
      createAnalyser_def connect_keeps Let_def split_def)

lemma buildGraph_keeps:
  "pausedTimeRef (snd (buildGraph r b w)) = pausedTimeRef w"
  "startTimeRef (snd (buildGraph r b w)) = startTimeRef w"
  "currentTime (snd (buildGraph r b w)) = currentTime w"
  "isPlayingState (snd (buildGraph r b w)) = isPlayingState w"
  "animationFrameRef (snd (buildGraph r b w)) = animationFrameRef w"
  "frames (snd (buildGraph r b w)) = frames w"
  "paints (snd (buildGraph r b w)) = paints w"
  "lastFrame (snd (buildGraph r b w)) = lastFrame w"
  "canvasRef (snd (buildGraph r b w)) = canvasRef w"
  "legacyStop (snd (buildGraph r b w)) = legacyStop w"
  by (simp_all add: buildGraph_def createBufferSource_def createBiquadFilter_def
      createAnalyser_def connect_keeps Let_def split_def)

lemma resume_keeps:
  "pausedTimeRef (if ctxState w = Suspended then resume w else w) = pausedTimeRef w"
  "startTimeRef (if ctxState w = Suspended then resume w else w) = startTimeRef w"
  "currentTime (if ctxState w = Suspended then resume w else w) = currentTime w"
  "sources (if ctxState w = Suspended then resume w else w) = sources w"
  "filters (if ctxState w = Suspended then resume w else w) = filters w"
  "analysers (if ctxState w = Suspended then resume w else w) = analysers w"
  "frames (if ctxState w = Suspended then resume w else w) = frames w"
  "paints (if ctxState w = Suspended then resume w else w) = paints w"
  "edges (if ctxState w = Suspended then resume w else w) = edges w"
  "isPlayingState (if ctxState w = Suspended then resume w else w) = isPlayingState w"
  "animationFrameRef (if ctxState w = Suspended then resume w else w) = animationFrameRef w"
  "legacyStop (if ctxState w = Suspended then resume w else w) = legacyStop w"
  "lastFrame (if ctxState w = Suspended then resume w else w) = lastFrame w"
  "canvasRef (if ctxState w = Suspended then resume w else w) = canvasRef w"
  by (simp_all add: resume_def)

lemma draw_keeps:
  "sources (draw r w) = sources w" "filters (draw r w) = filters w"
  "analysers (draw r w) = analysers w" "edges (draw r w) = edges w"
  "sourceRef (draw r w) = sourceRef w" "bassFilterRef (draw r w) = bassFilterRef w"
  "analyserRef (draw r w) = analyserRef w" "startTimeRef (draw r w) = startTimeRef w"
  "pausedTimeRef (draw r w) = pausedTimeRef w" "isPlayingState (draw r w) = isPlayingState w"
  "currentTime (draw r w) = currentTime w" "legacyStop (draw r w) = legacyStop w"
  "canvasRef (draw r w) = canvasRef w" "ctxState (draw r w) = ctxState w"
  by (simp_all add: draw_def requestAnimationFrame_def Let_def)

lemma visualize_keeps:
  "sources (visualize r w) = sources w" "filters (visualize r w) = filters w"
  "analysers (visualize r w) = analysers w" "edges (visualize r w) = edges w"
  "sourceRef (visualize r w) = sourceRef w" "bassFilterRef (visualize r w) = bassFilterRef w"
  "analyserRef (visualize r w) = analyserRef w" "startTimeRef (visualize r w) = startTimeRef w"
  "pausedTimeRef (visualize r w) = pausedTimeRef w"
  "isPlayingState (visualize r w) = isPlayingState w"
  "currentTime (visualize r w) = currentTime w" "legacyStop (visualize r w) = legacyStop w"
  "canvasRef (visualize r w) = canvasRef w" "ctxState (visualize r w) = ctxState w"
  by (simp_all add: visualize_def draw_keeps)

lemma visualize_not_playing: "\<not> isPlaying r \<Longrightarrow> visualize r w = w"
  by (simp add: visualize_def draw_def)

lemma started_fields:
  "sources (started r b off w) = sources w @
      [\<lparr>buffer = Some b, startOffset = Some off, startedAt = currentTime w,
        stopped = False, onended = True, endedFired = False\<rparr>]"
  "filters (started r b off w) = filters w @
     [\<lparr>ftype = Lowshelf, frequency = 200, gain = bassBoost r * 1.5, gainTarget = None\<rparr>]"
  "sourceRef (started r b off w) = Some (length (sources w))"
  "bassFilterRef (started r b off w) = Some (length (filters w))"
  "analyserRef (started r b off w) = Some (length (analysers w))"
  "startTimeRef (started r b off w) = currentTime w - off"
  "pausedTimeRef (started r b off w) = pausedTimeRef w"
  "isPlayingState (started r b off w) = True"
  "currentTime (started r b off w) = currentTime w"
  "frames (started r b off w) = frames w"
  "paints (started r b off w) = paints w"
  "animationFrameRef (started r b off w) = animationFrameRef w"
  "legacyStop (started r b off w) = legacyStop w"
  by (simp_all add: started_def Let_def buildGraph_filters buildGraph_refs buildGraph_keeps
      resume_keeps)

subsection \<open>The remainder\<close>

lemma js_rem_small: "0 \<le> x \<Longrightarrow> x < d \<Longrightarrow> js_rem x d = Some x"
  by (simp add: js_rem_def floor_eq_iff)

lemma js_rem_range:
  assumes "0 \<le> x" "0 < d"
  shows "\<exists>off. js_rem x d = Some off \<and> 0 \<le> off \<and> off < d"
proof -
  have q: "0 \<le> x / d" using assms by simp
  let ?k = "\<lfloor>x / d\<rfloor>"
  have "of_int ?k \<le> x / d" by (rule of_int_floor_le)
  then have "d * of_int ?k \<le> d * (x / d)"
    using assms(2) by (intro mult_left_mono) simp_all
  then have lo: "d * of_int ?k \<le> x" using assms(2) by simp
  have "x / d < of_int ?k + 1" by linarith
  then have "d * (x / d) < d * (of_int ?k + 1)"
    using assms(2) by (intro mult_strict_left_mono) simp_all
  then have hi: "x - d * of_int ?k < d" using assms(2) by (simp add: algebra_simps)
  show ?thesis using assms q lo hi by (simp add: js_rem_def)
qed

subsection \<open>The outcomes of \<open>playAudio\<close> and \<open>pauseAudio\<close>\<close>

lemma playAudio_ready:
  assumes "audioBuffer r = Some b" "audioContext r = Some c"
    and "js_rem (pausedTimeRef w) (duration b) = Some off" "0 \<le> off"
  shows "playAudio r w = (None, visualize r (started r b off w))"
proof -
  let ?w0 = "if ctxState w = Suspended then resume w else w"
  obtain s w1 where bg: "buildGraph r b ?w0 = (s, w1)" by (cases "buildGraph r b ?w0")
  have s: "s = length (sources w)"
    using buildGraph_fst [of r b ?w0] bg by (simp add: resume_keeps)
  have w1: "w1 = snd (buildGraph r b ?w0)" using bg by simp
  have src: "sources w1 = sources w @
     [\<lparr>buffer = Some b, startOffset = None, startedAt = 0, stopped = False,
       onended = False, endedFired = False\<rparr>]"
    unfolding w1 by (simp add: buildGraph_sources resume_keeps)
  have p: "pausedTimeRef w1 = pausedTimeRef w" "currentTime w1 = currentTime w"
    unfolding w1 by (simp_all add: buildGraph_keeps resume_keeps)
  have st: "start (length (sources w)) (Some off) w1 =
      Inr (w1\<lparr>sources := sources w @
               [\<lparr>buffer = Some b, startOffset = Some off, startedAt = currentTime w,
                 stopped = False, onended = False, endedFired = False\<rparr>]\<rparr>)"
    using assms(4) by (simp add: start_def src p)
  show ?thesis
    using assms(1,2,3)
    by (simp add: playAudio_def bg p st setIsPlaying_def s started_def Let_def w1 [symmetric])
qed

lemma playAudio_cases [consumes 2, case_names thrown ok]:
  assumes "audioBuffer r = Some b" "audioContext r = Some c"
  obtains (thrown) e where
      "playAudio r w =
         (Some e, snd (buildGraph r b (if ctxState w = Suspended then resume w else w)))"
    | (ok) off where "js_rem (pausedTimeRef w) (duration b) = Some off" "0 \<le> off"
      "playAudio r w = (None, visualize r (started r b off w))"
proof -
  let ?w0 = "if ctxState w = Suspended then resume w else w"
  obtain s w1 where bg: "buildGraph r b ?w0 = (s, w1)" by (cases "buildGraph r b ?w0")
  have p: "pausedTimeRef w1 = pausedTimeRef w"
    using bg buildGraph_keeps(1) [of r b ?w0] by (simp add: resume_keeps)
  have thr: "playAudio r w = (Some e, w1)"
    if "start s (js_rem (pausedTimeRef w) (duration b)) w1 = Inl e" for e
    using assms that by (simp add: playAudio_def bg p)
  show thesis
  proof (cases "js_rem (pausedTimeRef w) (duration b)")
    case None
    then have "start s (js_rem (pausedTimeRef w) (duration b)) w1 = Inl TypeError"
      by (simp add: start_def)
    from thr [OF this] show thesis using thrown bg by simp
  next
    case (Some off)
    show thesis
    proof (cases "off < 0")
      case True
      then have "start s (js_rem (pausedTimeRef w) (duration b)) w1 = Inl RangeError"
        using Some by (simp add: start_def)
      from thr [OF this] show thesis using thrown bg by simp
    next
      case False
      then have "0 \<le> off" by simp
      then show thesis using ok Some playAudio_ready [OF assms Some] by simp
    qed
  qed
qed

lemma playAudio_graph:
  assumes "audioBuffer r = Some b" "audioContext r = Some c"
  shows "bassFilterRef (snd (playAudio r w)) = Some (length (filters w))"
    and "filters (snd (playAudio r w)) = filters w @
     [\<lparr>ftype = Lowshelf, frequency = 200, gain = bassBoost r * 1.5, gainTarget = None\<rparr>]"
proof -
  from assms
  have "bassFilterRef (snd (playAudio r w)) = Some (length (filters w))
     \<and> filters (snd (playAudio r w)) = filters w @
     [\<lparr>ftype = Lowshelf, frequency = 200, gain = bassBoost r * 1.5, gainTarget = None\<rparr>]"
  proof (cases rule: playAudio_cases [where w = w])
    case (thrown e)
    then show ?thesis by (simp add: buildGraph_filters buildGraph_refs resume_keeps)
  next
    case (ok off)
    then show ?thesis by (simp add: visualize_keeps started_fields)
  qed
  then show "bassFilterRef (snd (playAudio r w)) = Some (length (filters w))"
    and "filters (snd (playAudio r w)) = filters w @
     [\<lparr>ftype = Lowshelf, frequency = 200, gain = bassBoost r * 1.5, gainTarget = None\<rparr>]"
    by simp_all
qed

lemma playAudio_quiet:
  assumes "\<not> isPlaying r"
  shows "frames (snd (playAudio r w)) = frames w \<and> paints (snd (playAudio r w)) = paints w"
proof (cases "audioBuffer r")
  case None
  then show ?thesis by (simp add: playAudio_def)
next
  case (Some b)
  note b = this
  show ?thesis
  proof (cases "audioContext r")
    case None
    then show ?thesis by (simp add: playAudio_def b)
  next
    case (Some c)
    from b Some show ?thesis
    proof (cases rule: playAudio_cases [where w = w])
      case (thrown e)
      then show ?thesis by (simp add: buildGraph_keeps resume_keeps)
    next
      case (ok off)
      then show ?thesis using assms by (simp add: visualize_not_playing started_fields)
    qed
  qed
qed

lemma playAudio_times:
  assumes "startTimeRef w \<le> currentTime w"
  shows "startTimeRef (snd (playAudio r w)) \<le> currentTime (snd (playAudio r w))
     \<and> pausedTimeRef (snd (playAudio r w)) = pausedTimeRef w"
proof (cases "audioBuffer r")
  case None
  then show ?thesis using assms by (simp add: playAudio_def)
next
  case (Some b)
  note b = this
  show ?thesis
  proof (cases "audioContext r")
    case None
    then show ?thesis using assms by (simp add: playAudio_def b)
  next
    case (Some c)
    from b Some show ?thesis
    proof (cases rule: playAudio_cases [where w = w])
      case (thrown e)
      then show ?thesis using assms by (simp add: buildGraph_keeps resume_keeps)
    next
      case (ok off)
      then show ?thesis by (simp add: visualize_keeps started_fields)
    qed
  qed
qed

lemma pauseAudio_playing:
  assumes "sourceRef w = Some s" "isPlaying r" "audioContext r = Some c"
    and "s < length (sources w)" "startOffset (sources w ! s) = Some off"
    and "\<not> stopped (sources w ! s)"
  shows "pauseAudio r w =
     (None, w\<lparr>sources := (sources w)[s := (sources w ! s)\<lparr>stopped := True\<rparr>],
              edges := filter (\<lambda>e. fst e \<noteq> SourceNode s) (edges w),
              pausedTimeRef := currentTime w - startTimeRef w,
              isPlayingState := False,
              frames := keptFrames w\<rparr>)"
  using assms
  by (simp add: pauseAudio_def stop_def disconnect_def setIsPlaying_def Let_def
      cancelAnimationFrame_def keptFrames_def)

lemma pauseAudio_cases [case_names idle thrown paused]:
  obtains (idle) "sourceRef w = None \<or> \<not> isPlaying r \<or> audioContext r = None"
      "pauseAudio r w = (None, w)"
    | (thrown) e where "pauseAudio r w = (Some e, w)"
    | (paused) s where "sourceRef w = Some s"
      "pauseAudio r w =
        (None, w\<lparr>sources := (sources w)[s := (sources w ! s)\<lparr>stopped := True\<rparr>],
              edges := filter (\<lambda>e. fst e \<noteq> SourceNode s) (edges w),
              pausedTimeRef := currentTime w - startTimeRef w,
              isPlayingState := False,
              frames := keptFrames w\<rparr>)"
proof (cases "sourceRef w")
  case None
  then have "pauseAudio r w = (None, w)" by (simp add: pauseAudio_def)
  then show thesis using idle None by simp
next
  case (Some s)
  show thesis
  proof (cases "isPlaying r \<and> audioContext r \<noteq> None")
    case False
    then have "pauseAudio r w = (None, w)" using Some by (auto simp: pauseAudio_def)
    then show thesis using idle False by blast
  next
    case True
    show thesis
    proof (cases "stop s w")
      case (Inl e)
      then have "pauseAudio r w = (Some e, w)" using Some True by (simp add: pauseAudio_def)
      then show thesis by (rule thrown)
    next
      case (Inr w1)
      then have w1: "w1 = w\<lparr>sources := (sources w)[s := (sources w ! s)\<lparr>stopped := True\<rparr>]\<rparr>"
        by (auto simp: stop_def list_update_stopped_same list_update_beyond split: if_splits)
      have "pauseAudio r w =
        (None, w\<lparr>sources := (sources w)[s := (sources w ! s)\<lparr>stopped := True\<rparr>],
              edges := filter (\<lambda>e. fst e \<noteq> SourceNode s) (edges w),
              pausedTimeRef := currentTime w - startTimeRef w,
              isPlayingState := False,
              frames := keptFrames w\<rparr>)"
        using Some True Inr
        by (simp add: pauseAudio_def w1 disconnect_def setIsPlaying_def Let_def
            cancelAnimationFrame_def keptFrames_def)
      then show thesis using paused Some by simp
    qed
  qed
qed

lemma pauseAudio_quiet:
  assumes "frames w = []"
  shows "frames (snd (pauseAudio r w)) = [] \<and> paints (snd (pauseAudio r w)) = paints w"
  by (cases rule: pauseAudio_cases [where r = r and w = w]) (simp_all add: assms keptFrames_def)

lemma pauseAudio_times:
  assumes "startTimeRef w \<le> currentTime w" "0 \<le> pausedTimeRef w"
  shows "startTimeRef (snd (pauseAudio r w)) \<le> currentTime (snd (pauseAudio r w))
     \<and> 0 \<le> pausedTimeRef (snd (pauseAudio r w))"
  by (cases rule: pauseAudio_cases [where r = r and w = w]) (simp_all add: assms)

subsection \<open>The effects and the dispatch of \<open>ended\<close>\<close>

lemma onendedHandler_keeps:
  "frames (onendedHandler b w) = frames w" "paints (onendedHandler b w) = paints w"
  "startTimeRef (onendedHandler b w) = startTimeRef w"
  "currentTime (onendedHandler b w) = currentTime w"
  by (simp_all add: onendedHandler_def setIsPlaying_def Let_def)

lemma onendedHandler_paused:
  "0 \<le> pausedTimeRef w \<Longrightarrow> 0 \<le> pausedTimeRef (onendedHandler b w)"
  by (simp add: onendedHandler_def setIsPlaying_def Let_def)

lemma dispatchEnded_keeps:
  "frames (dispatchEnded k w) = frames w" "paints (dispatchEnded k w) = paints w"
  "startTimeRef (dispatchEnded k w) = startTimeRef w"
  "currentTime (dispatchEnded k w) = currentTime w"
  by (simp_all add: dispatchEnded_def Let_def onendedHandler_keeps split: option.splits)

lemma dispatchEnded_paused:
  "0 \<le> pausedTimeRef w \<Longrightarrow> 0 \<le> pausedTimeRef (dispatchEnded k w)"
  by (simp add: dispatchEnded_def Let_def onendedHandler_paused split: option.splits)

lemma ended_before_end_ignored:
  assumes "k < length (sources w)" "buffer (sources w ! k) = Some b"
    and "currentTime w - startTimeRef w < duration b"
  shows "pausedTimeRef (dispatchEnded k w) = pausedTimeRef w
     \<and> isPlayingState (dispatchEnded k w) = isPlayingState w"
  using assms by (simp add: dispatchEnded_def onendedHandler_def Let_def)

lemma ended_when_stopped:
  assumes "pausedTimeRef w = 0" "\<not> isPlayingState w"
  shows "pausedTimeRef (dispatchEnded k w) = 0 \<and> \<not> isPlayingState (dispatchEnded k w)"
  using assms
  by (simp add: dispatchEnded_def onendedHandler_def setIsPlaying_def Let_def split: option.splits)

lemma audioBufferEffect_snd: "snd (audioBufferEffect w) = snd (stopAudio w)"
proof -
  obtain x w1 where s: "stopAudio w = (x, w1)" by (cases "stopAudio w")
  have x: "x = None" using stopAudio_fst [of w] s by simp
  have "pausedTimeRef w1 = 0" using stopAudio_snd [of w] s by simp
  then have "w1\<lparr>pausedTimeRef := 0\<rparr> = w1" by simp
  then show ?thesis by (simp add: audioBufferEffect_def s x)
qed

lemma audioBufferEffect_fst: "fst (audioBufferEffect w) = None"
proof -
  obtain x w1 where s: "stopAudio w = (x, w1)" by (cases "stopAudio w")
  have x: "x = None" using stopAudio_fst [of w] s by simp
  show ?thesis by (simp add: audioBufferEffect_def s x)
qed

lemma bassBoostEffect_keeps:
  "frames (bassBoostEffect r w) = frames w" "paints (bassBoostEffect r w) = paints w"
  "startTimeRef (bassBoostEffect r w) = startTimeRef w"
  "currentTime (bassBoostEffect r w) = currentTime w"
  "pausedTimeRef (bassBoostEffect r w) = pausedTimeRef w"
  "sources (bassBoostEffect r w) = sources w" "edges (bassBoostEffect r w) = edges w"
  "sourceRef (bassBoostEffect r w) = sourceRef w"
  "isPlayingState (bassBoostEffect r w) = isPlayingState w"
  by (simp_all add: bassBoostEffect_def setTargetAtTime_def split: option.splits)

lemma commit_keeps:
  "haltedSources (commit r w) = haltedSources w" "cutEdges (commit r w) = cutEdges w"
  "keptFrames (commit r w) = keptFrames w" "paints (commit r w) = paints w"
  "currentTime (commit r w) = currentTime w" "startTimeRef (commit r w) = startTimeRef w"
  by (simp_all add: commit_def haltedSources_def cutEdges_def keptFrames_def
      split: option.splits del: not_None_eq)

lemma mount_fields:
  "frames (snd (mount b c l (platform0 t st lg cv))) = []"
  "paints (snd (mount b c l (platform0 t st lg cv))) = []"
  "startTimeRef (snd (mount b c l (platform0 t st lg cv))) = 0"
  "currentTime (snd (mount b c l (platform0 t st lg cv))) = t"
  "pausedTimeRef (snd (mount b c l (platform0 t st lg cv))) = 0"
  by (simp_all add: mount_def Let_def bassBoostEffect_keeps audioBufferEffect_snd stopAudio_snd
      commit_def keptFrames_def platform0_def)

subsection \<open>Invariants of every run\<close>

lemma step_quiet:
  assumes "frames (snd c) = []" "paints (snd c) = []"
  shows "frames (snd (step e c)) = [] \<and> paints (snd (step e c)) = []"
proof -
  obtain r w where c: "c = (r, w)" by (cases c)
  have fw: "frames w = []" "paints w = []" using assms c by simp_all
  show ?thesis
  proof (cases e)
    case PlayPauseClick
    show ?thesis
    proof (cases "isPlaying r")
      case True
      then show ?thesis
        using pauseAudio_quiet [OF fw(1), of r] fw
        by (simp add: c PlayPauseClick Let_def)
    next
      case False
      then show ?thesis
        using playAudio_quiet [OF False, of w] fw
        by (simp add: c PlayPauseClick Let_def)
    qed
  next
    case (Ended k)
    then show ?thesis using fw by (simp add: c Let_def dispatchEnded_keeps)
  next
    case AnimationFrame
    then show ?thesis using fw by (simp add: c)
  next
    case (NewBuffer b)
    then show ?thesis using fw
      by (simp add: c Let_def audioBufferEffect_snd stopAudio_snd keptFrames_def commit_def)
  next
    case (SetBassBoost l)
    then show ?thesis using fw by (simp add: c Let_def bassBoostEffect_keeps)
  next
    case (SetContext x)
    then show ?thesis using fw by (simp add: c Let_def bassBoostEffect_keeps)
  next
    case (Elapse dt)
    then show ?thesis using fw by (simp add: c)
  qed
qed

lemma run_quiet:
  "frames (snd c) = [] \<Longrightarrow> paints (snd c) = [] \<Longrightarrow>
   frames (snd (run es c)) = [] \<and> paints (snd (run es c)) = []"
proof (induction es arbitrary: c)
  case Nil
  then show ?case by simp
next
  case (Cons e es)
  have "frames (snd (step e c)) = [] \<and> paints (snd (step e c)) = []"
    using Cons.prems by (rule step_quiet)
  then show ?case using Cons.IH [of "step e c"] by simp
qed

lemma step_times:
  assumes "startTimeRef (snd c) \<le> currentTime (snd c)" "0 \<le> pausedTimeRef (snd c)"
  shows "startTimeRef (snd (step e c)) \<le> currentTime (snd (step e c))
     \<and> 0 \<le> pausedTimeRef (snd (step e c))"
proof -
  obtain r w where c: "c = (r, w)" by (cases c)
  have tw: "startTimeRef w \<le> currentTime w" "0 \<le> pausedTimeRef w" using assms c by simp_all
  show ?thesis
  proof (cases e)
    case PlayPauseClick
    show ?thesis
    proof (cases "isPlaying r")
      case True
      then show ?thesis
        using pauseAudio_times [OF tw, of r] tw
        by (simp add: c PlayPauseClick Let_def)
    next
      case False
      then show ?thesis
        using playAudio_times [OF tw(1), of r] tw
        by (simp add: c PlayPauseClick Let_def)
    qed
  next
    case (Ended k)
    then show ?thesis using tw by (simp add: c Let_def dispatchEnded_keeps dispatchEnded_paused)
  next
    case AnimationFrame
    then show ?thesis using tw by (simp add: c Let_def draw_keeps split: list.splits)
  next
    case (NewBuffer b)
    then show ?thesis using tw
      by (simp add: c Let_def audioBufferEffect_snd stopAudio_snd commit_def)
  next
    case (SetBassBoost l)
    then show ?thesis using tw by (simp add: c Let_def bassBoostEffect_keeps)
  next
    case (SetContext x)
    then show ?thesis using tw by (simp add: c Let_def bassBoostEffect_keeps)
  next
    case (Elapse dt)
    then show ?thesis using tw by (simp add: c)
  qed
qed

lemma run_times:
  "startTimeRef (snd c) \<le> currentTime (snd c) \<Longrightarrow> 0 \<le> pausedTimeRef (snd c) \<Longrightarrow>
   startTimeRef (snd (run es c)) \<le> currentTime (snd (run es c))
     \<and> 0 \<le> pausedTimeRef (snd (run es c))"
proof (induction es arbitrary: c)
  case Nil
  then show ?case by simp
next
  case (Cons e es)
  have "startTimeRef (snd (step e c)) \<le> currentTime (snd (step e c))
     \<and> 0 \<le> pausedTimeRef (snd (step e c))"
    using Cons.prems by (rule step_times)
  then show ?case using Cons.IH [of "step e c"] by simp
qed

lemma haltedSources_stopped:
  assumes "sourceRef w = Some s" "s < length (sources w)" "startOffset (sources w ! s) \<noteq> None"
  shows "stopped (haltedSources w ! s)"
  using assms by (simp add: haltedSources_def del: not_None_eq)

lemma outgoing_cut_self:
  "edges w' = filter (\<lambda>e. fst e \<noteq> n) (edges w) \<Longrightarrow> outgoing n w' = []"
  by (simp add: outgoing_def)

lemma outgoing_cut_other:
  "edges w' = filter (\<lambda>e. fst e \<noteq> n) (edges w) \<Longrightarrow> m \<noteq> n \<Longrightarrow>
   outgoing m w' = outgoing m w"
  by (auto simp: outgoing_def intro: filter_cong)

subsection \<open>Bass level and filter gain\<close>

text \<open>
  Claim C2. For every bass level \<open>L\<close> between 0 and 10: \<open>playAudio\<close>, in a render with a
  buffer and a context, creates a low-shelf filter at 200 Hz whose gain is set directly
  to \<open>1.5 * L\<close>, with no automation scheduled, and stores it in \<open>bassFilterRef\<close>; and the
  effect on the bass level, run while \<open>bassFilterRef\<close> holds a filter, schedules on that
  same filter an approach to \<open>1.5 * L\<close> from the current time with time constant 0.1 and
  changes nothing else in the world, so no source is stopped or started.
\<close>

theorem bass_gain:
  assumes "audioBuffer r = Some b" "audioContext r = Some c"
    and "bassBoost r = of_int L" "0 \<le> L" "L \<le> 10"
    and "bassFilterRef w' = Some f" "f < length (filters w')"
  shows "bassFilterRef (snd (playAudio r w)) = Some (length (filters w))
     \<and> filters (snd (playAudio r w)) ! length (filters w) =
         \<lparr>ftype = Lowshelf, frequency = 200, gain = 1.5 * of_int L, gainTarget = None\<rparr>
     \<and> bassBoostEffect r w' =
         w'\<lparr>filters := (filters w')
              [f := (filters w' ! f)\<lparr>gainTarget := Some (1.5 * of_int L, currentTime w', 0.1)\<rparr>]\<rparr>"
  using assms playAudio_graph [OF assms(1,2), of w]
  by (simp add: bassBoostEffect_def setTargetAtTime_def mult.commute)

theorem bass_gain_witness:
  "bassBoost exampleRender = of_int 10
   \<and> bassFilterRef (snd (playAudio exampleRender (platform0 0 Running False True))) = Some 0
   \<and> filters (snd (playAudio exampleRender (platform0 0 Running False True))) ! 0
       = \<lparr>ftype = Lowshelf, frequency = 200, gain = 15, gainTarget = None\<rparr>
   \<and> bassBoostEffect exampleRender
        ((platform0 1 Running False True)
           \<lparr>bassFilterRef := Some 0,
            filters := [\<lparr>ftype = Lowshelf, frequency = 200, gain = 6, gainTarget = None\<rparr>]\<rparr>)
       = (platform0 1 Running False True)
           \<lparr>bassFilterRef := Some 0,
            filters := [\<lparr>ftype = Lowshelf, frequency = 200, gain = 6,
                         gainTarget = Some (15, 1, 1 / 10)\<rparr>]\<rparr>"
  using bass_gain [of exampleRender exampleBuffer Ctx 10
        "(platform0 1 Running False True)
           \<lparr>bassFilterRef := Some 0,
            filters := [\<lparr>ftype = Lowshelf, frequency = 200, gain = 6, gainTarget = None\<rparr>]\<rparr>"
        0 "platform0 0 Running False True"]
  by (simp add: platform0_def exampleRender_def)

subsection \<open>Play, pause, play\<close>

text \<open>
  In a render with a buffer of positive duration and a context, in a world
  whose \<open>pausedTimeRef\<close> is not negative: \<open>playAudio\<close>, then \<open>pauseAudio\<close> in the next
  render when the clock shows \<open>t1\<close>, then \<open>playAudio\<close> in the render after that. None of
  the three throws; the pause stores in \<open>pausedTimeRef\<close> the clock minus \<open>startTimeRef\<close>;
  the second play starts its source at that value \<open>%\<close> the duration. When the first play
  began at offset 0 and the pause comes before the buffer's end, the stored value and
  the offset of the second play are both the time played, \<open>t1\<close> minus the clock at the
  first play. The \<open>ended\<close> event that the pause provokes may be dispatched before the
  second play, at clock \<open>te\<close>: as long as \<open>te\<close> minus \<open>startTimeRef\<close> is below the
  duration, it leaves the stored value alone and the second play starts at the same
  offset.
\<close>

lemma play_pause_play_resumes:
  assumes "audioBuffer r = Some b" "audioContext r = Some c" "0 < duration b"
    and "0 \<le> pausedTimeRef w" "currentTime w \<le> t1"
    and "w1 = snd (playAudio r w)"
    and "w2 = snd (pauseAudio (rerender r w1) (w1\<lparr>currentTime := t1\<rparr>))"
    and "w3 = snd (playAudio (rerender r w2) (w2\<lparr>currentTime := t2\<rparr>))"
    and "w2e = dispatchEnded (length (sources w)) (w2\<lparr>currentTime := te\<rparr>)"
    and "w3e = snd (playAudio (rerender r w2e) (w2e\<lparr>currentTime := t2\<rparr>))"
  shows "fst (playAudio r w) = None
     \<and> fst (pauseAudio (rerender r w1) (w1\<lparr>currentTime := t1\<rparr>)) = None
     \<and> fst (playAudio (rerender r w2) (w2\<lparr>currentTime := t2\<rparr>)) = None
     \<and> pausedTimeRef w2 = t1 - startTimeRef w1
     \<and> startedOffset w3 = js_rem (pausedTimeRef w2) (duration b)
     \<and> (pausedTimeRef w = 0 \<and> t1 - currentTime w < duration b \<longrightarrow>
          pausedTimeRef w2 = t1 - currentTime w
          \<and> startedOffset w3 = Some (t1 - currentTime w))
     \<and> (te - startTimeRef w1 < duration b \<longrightarrow>
          pausedTimeRef w2e = pausedTimeRef w2
          \<and> fst (playAudio (rerender r w2e) (w2e\<lparr>currentTime := t2\<rparr>)) = None
          \<and> startedOffset w3e = startedOffset w3)"
proof -
  obtain off where off:
    "js_rem (pausedTimeRef w) (duration b) = Some off" "0 \<le> off" "off < duration b"
    using js_rem_range [OF assms(4,3)] by blast
  have p1: "playAudio r w = (None, visualize r (started r b off w))"
    by (rule playAudio_ready [OF assms(1,2) off(1,2)])
  have w1: "w1 = visualize r (started r b off w)" using assms(6) p1 by simp
  let ?s = "length (sources w)"
  let ?w1t = "w1\<lparr>currentTime := t1\<rparr>"
  have r1: "isPlaying (rerender r w1)" "audioContext (rerender r w1) = Some c"
    "audioBuffer (rerender r w1) = Some b"
    using assms(1,2) by (simp_all add: rerender_def w1 visualize_keeps started_fields)
  have src1: "sourceRef ?w1t = Some ?s" "?s < length (sources ?w1t)"
     "startOffset (sources ?w1t ! ?s) = Some off" "\<not> stopped (sources ?w1t ! ?s)"
     "buffer (sources ?w1t ! ?s) = Some b"
    by (simp_all add: w1 visualize_keeps started_fields)
  have p2: "pauseAudio (rerender r w1) ?w1t =
     (None, ?w1t\<lparr>sources := (sources ?w1t)[?s := (sources ?w1t ! ?s)\<lparr>stopped := True\<rparr>],
              edges := filter (\<lambda>e. fst e \<noteq> SourceNode ?s) (edges ?w1t),
              pausedTimeRef := currentTime ?w1t - startTimeRef ?w1t,
              isPlayingState := False,
              frames := keptFrames ?w1t\<rparr>)"
    by (rule pauseAudio_playing [OF src1(1) r1(1,2) src1(2,3,4)])
  have st1: "startTimeRef w1 = currentTime w - off"
    by (simp add: w1 visualize_keeps started_fields)
  have pt2: "pausedTimeRef w2 = t1 - startTimeRef w1"
    using assms(7) unfolding p2 by simp
  have w2f: "startTimeRef w2 = startTimeRef w1" "?s < length (sources w2)"
    "buffer (sources w2 ! ?s) = Some b"
    using assms(7) src1(2,5) unfolding p2 by simp_all
  have nn: "0 \<le> pausedTimeRef w2" using pt2 st1 off(2) assms(5) by simp
  obtain off2 where off2: "js_rem (pausedTimeRef w2) (duration b) = Some off2" "0 \<le> off2"
    using js_rem_range [OF nn assms(3)] by blast
  let ?w2t = "w2\<lparr>currentTime := t2\<rparr>"
  have r2: "audioContext (rerender r w2) = Some c" "audioBuffer (rerender r w2) = Some b"
    using assms(1,2) by (simp_all add: rerender_def)
  have off2': "js_rem (pausedTimeRef ?w2t) (duration b) = Some off2" using off2(1) by simp
  have p3: "playAudio (rerender r w2) ?w2t =
      (None, visualize (rerender r w2) (started (rerender r w2) b off2 ?w2t))"
    by (rule playAudio_ready [OF r2(2,1) off2' off2(2)])
  have so3: "startedOffset w3 = Some off2"
    using assms(8) unfolding p3 by (simp add: startedOffset_def visualize_keeps started_fields)
  have small: "pausedTimeRef w = 0 \<and> t1 - currentTime w < duration b \<longrightarrow>
          pausedTimeRef w2 = t1 - currentTime w
          \<and> startedOffset w3 = Some (t1 - currentTime w)"
  proof
    assume a: "pausedTimeRef w = 0 \<and> t1 - currentTime w < duration b"
    have "js_rem 0 (duration b) = Some 0" using assms(3) by (simp add: js_rem_small)
    then have "off = 0" using off(1) a by simp
    then have e: "pausedTimeRef w2 = t1 - currentTime w" using pt2 st1 by simp
    have "js_rem (t1 - currentTime w) (duration b) = Some (t1 - currentTime w)"
      using a assms(5) by (simp add: js_rem_small)
    then have "off2 = t1 - currentTime w" using off2(1) e by simp
    then show "pausedTimeRef w2 = t1 - currentTime w
        \<and> startedOffset w3 = Some (t1 - currentTime w)"
      using e so3 by simp
  qed
  have late: "te - startTimeRef w1 < duration b \<longrightarrow>
          pausedTimeRef w2e = pausedTimeRef w2
          \<and> fst (playAudio (rerender r w2e) (w2e\<lparr>currentTime := t2\<rparr>)) = None
          \<and> startedOffset w3e = startedOffset w3"
  proof
    assume a: "te - startTimeRef w1 < duration b"
    let ?w2te = "w2\<lparr>currentTime := te\<rparr>"
    have "pausedTimeRef (dispatchEnded ?s ?w2te) = pausedTimeRef ?w2te
        \<and> isPlayingState (dispatchEnded ?s ?w2te) = isPlayingState ?w2te"
      using w2f a by (intro ended_before_end_ignored [where b = b]) simp_all
    then have e: "pausedTimeRef w2e = pausedTimeRef w2" using assms(9) by simp
    let ?w2et = "w2e\<lparr>currentTime := t2\<rparr>"
    have r2e: "audioContext (rerender r w2e) = Some c" "audioBuffer (rerender r w2e) = Some b"
      using assms(1,2) by (simp_all add: rerender_def)
    have off2e: "js_rem (pausedTimeRef ?w2et) (duration b) = Some off2" using off2(1) e by simp
    have p3e: "playAudio (rerender r w2e) ?w2et =
        (None, visualize (rerender r w2e) (started (rerender r w2e) b off2 ?w2et))"
      by (rule playAudio_ready [OF r2e(2,1) off2e off2(2)])
    have "startedOffset w3e = Some off2"
      using assms(10) unfolding p3e
      by (simp add: startedOffset_def visualize_keeps started_fields)
    then show "pausedTimeRef w2e = pausedTimeRef w2
          \<and> fst (playAudio (rerender r w2e) (w2e\<lparr>currentTime := t2\<rparr>)) = None
          \<and> startedOffset w3e = startedOffset w3"
      using e p3e so3 by simp
  qed
  show ?thesis
    using p1 p2 p3 pt2 so3 off2(1) small late by simp
qed

lemma play_pause_play_resumes_example:
  "pausedTimeRef examplePaused = 2 \<and> startedOffset exampleResumed = Some 2
   \<and> startedOffset exampleResumed = js_rem (pausedTimeRef examplePaused) (duration exampleBuffer)
   \<and> pausedTimeRef exampleEnded = 2 \<and> startedOffset exampleResumedLater = Some 2"
proof -
  have a: "audioBuffer exampleRender = Some exampleBuffer" "audioContext exampleRender = Some Ctx"
    "0 < duration exampleBuffer"
    by (simp_all add: exampleRender_def exampleBuffer_def)
  have b: "pausedTimeRef (snd exampleMounted) = 0" "currentTime (snd exampleMounted) = 0"
    by (simp_all add: exampleMounted_def mount_fields)
  have b': "length (sources (snd exampleMounted)) = 0" by code_simp
  have c: "0 \<le> pausedTimeRef (snd exampleMounted)" "currentTime (snd exampleMounted) \<le> 2"
    by (simp_all add: b)
  have d: "exampleEnded
      = dispatchEnded (length (sources (snd exampleMounted))) (examplePaused\<lparr>currentTime := 2.01\<rparr>)"
    by (simp add: exampleEnded_def b')
  note r = play_pause_play_resumes
    [OF a c examplePlayed_def examplePaused_def exampleResumed_def d exampleResumedLater_def]
  have pre: "pausedTimeRef (snd exampleMounted) = 0
      \<and> 2 - currentTime (snd exampleMounted) < duration exampleBuffer"
    by (simp add: b exampleBuffer_def)
  have "pausedTimeRef examplePaused = 2 - currentTime (snd exampleMounted)
      \<and> startedOffset exampleResumed = Some (2 - currentTime (snd exampleMounted))"
    using r pre by blast
  then have p: "pausedTimeRef examplePaused = 2 \<and> startedOffset exampleResumed = Some 2"
    by (simp add: b)
  have j: "startedOffset exampleResumed
      = js_rem (pausedTimeRef examplePaused) (duration exampleBuffer)"
    using r by blast
  have st: "startTimeRef examplePlayed = 0" by code_simp
  have pre2: "2.01 - startTimeRef examplePlayed < duration exampleBuffer"
    by (simp add: st exampleBuffer_def)
  have l: "pausedTimeRef exampleEnded = pausedTimeRef examplePaused
      \<and> startedOffset exampleResumedLater = startedOffset exampleResumed"
    using r pre2 by blast
  have m: "pausedTimeRef exampleEnded = 2 \<and> startedOffset exampleResumedLater = Some 2"
    using p l by metis
  show ?thesis using p j m by blast
qed

text \<open>
  Claim C1 says that play, pause, play resumes at the offset the pause captured. The
  component does not always do so. \<open>source.stop()\<close> in \<open>pauseAudio\<close> makes the platform
  dispatch \<open>ended\<close> to the stopped source, and the callback of lines 70-78 compares the
  clock at the time it runs with \<open>startTimeRef\<close>, which the pause has left alone. With
  the buffer of 5 seconds: Play at 0, Pause at 4.99, which stores 4.99, and
  4.99 \<open>%\<close> 5 is 4.99; the event is dispatched at 5.01, the callback finds 5.01 - 0 not
  below 5 and resets \<open>pausedTimeRef\<close> to 0, although the source was stopped by the pause
  and never reached its end; the next Play starts its source at offset 0.
\<close>

theorem pause_near_end_resumes_from_zero:
  "pausedTimeRef (snd (run [PlayPauseClick, Elapse 4.99, PlayPauseClick] exampleMounted)) = 4.99
   \<and> js_rem 4.99 (duration exampleBuffer) = Some 4.99
   \<and> stopped (sources (snd (run [PlayPauseClick, Elapse 4.99, PlayPauseClick] exampleMounted)) ! 0)
   \<and> pausedTimeRef
        (snd (run [PlayPauseClick, Elapse 4.99, PlayPauseClick, Elapse 0.02, Ended 0]
               exampleMounted)) = 0
   \<and> startedOffset
        (snd (run [PlayPauseClick, Elapse 4.99, PlayPauseClick, Elapse 0.02, Ended 0,
                   PlayPauseClick] exampleMounted)) = Some 0"
  by code_simp

subsection \<open>A new buffer\<close>

text \<open>
  Claim C7 does not hold as stated: the graph is not torn down. When a buffer of 3
  seconds arrives while the first one plays, the source held by \<open>sourceRef\<close> is stopped
  and disconnected, and the filter and the analyser of that session keep their
  connections, up to the output.
\<close>

theorem new_buffer_teardown_counterexample:
  "sourceRef (snd exampleReplaced) = Some 0
   \<and> outgoing (SourceNode 0) (snd exampleReplaced) = []
   \<and> outgoing (FilterNode 0) (snd exampleReplaced) = [(FilterNode 0, AnalyserNode 0)]
   \<and> outgoing (AnalyserNode 0) (snd exampleReplaced) = [(AnalyserNode 0, Destination)]"
  by code_simp

text \<open>
  Claim C7, amended. When a new buffer arrives, the effect on the buffer runs
  \<open>stopAudio\<close> before any further event is handled, and throws nothing. After it
  \<open>isPlaying\<close> is false in the state cell and in the next render and \<open>pausedTimeRef\<close> is
  0. Of the graph, the source held by \<open>sourceRef\<close> is stopped if it had been started,
  and has no outgoing connection left; the outgoing connections of every other node are
  what they were (\<open>haltedSources\<close> and \<open>cutEdges\<close> give the node store and the connections
  in full); the requested animation frame is cancelled (\<open>keptFrames\<close>). The next click,
  whenever it comes, runs \<open>playAudio\<close> on the new buffer, which throws nothing and starts
  the new source at offset 0. An \<open>ended\<close> event dispatched to any source after the effect
  finds \<open>isPlaying\<close> false and \<open>pausedTimeRef\<close> 0 and leaves them so.
\<close>

theorem new_buffer_forces_stop:
  assumes "0 < duration b" "audioContext r = Some c"
    and "c1 = step (NewBuffer (Some b)) (r, w)"
  shows "fst (audioBufferEffect (commit (r\<lparr>audioBuffer := Some b\<rparr>) w)) = None
     \<and> audioBuffer (fst c1) = Some b
     \<and> isPlayingState (snd c1) = False \<and> isPlaying (fst c1) = False
     \<and> pausedTimeRef (snd c1) = 0
     \<and> sources (snd c1) = haltedSources w
     \<and> edges (snd c1) = cutEdges w
     \<and> frames (snd c1) = keptFrames w
     \<and> fst (playAudio (fst c1) ((snd c1)\<lparr>currentTime := t\<rparr>)) = None
     \<and> startedOffset (snd (step PlayPauseClick (fst c1, (snd c1)\<lparr>currentTime := t\<rparr>)))
         = Some 0
     \<and> pausedTimeRef (dispatchEnded k ((snd c1)\<lparr>currentTime := te\<rparr>)) = 0
     \<and> isPlayingState (dispatchEnded k ((snd c1)\<lparr>currentTime := te\<rparr>)) = False
     \<and> (sourceRef w = Some s \<longrightarrow>
          outgoing (SourceNode s) (snd c1) = []
          \<and> (s < length (sources w) \<and> startOffset (sources w ! s) \<noteq> None \<longrightarrow>
               stopped (sources (snd c1) ! s))
          \<and> (n \<noteq> SourceNode s \<longrightarrow> outgoing n (snd c1) = outgoing n w))"
proof -
  let ?r1 = "fst c1" and ?w1 = "snd c1"
  have c1: "c1 = (rerender (r\<lparr>audioBuffer := Some b\<rparr>)
                    (snd (stopAudio (commit (r\<lparr>audioBuffer := Some b\<rparr>) w))),
                  snd (stopAudio (commit (r\<lparr>audioBuffer := Some b\<rparr>) w)))"
    by (simp add: assms(3) Let_def audioBufferEffect_snd)
  have w1: "?w1 = (commit (r\<lparr>audioBuffer := Some b\<rparr>) w)
       \<lparr>sources := haltedSources w, edges := cutEdges w, frames := keptFrames w,
         isPlayingState := False, pausedTimeRef := 0\<rparr>"
    unfolding c1 snd_conv stopAudio_snd commit_keeps ..
  have ip: "isPlayingState ?w1 = False" unfolding w1 by simp
  have r1: "audioBuffer ?r1 = Some b" "audioContext ?r1 = Some c" "\<not> isPlaying ?r1"
    using assms(2) ip unfolding c1 by (simp_all add: rerender_def)
  let ?wt = "?w1\<lparr>currentTime := t\<rparr>"
  have z: "js_rem (pausedTimeRef ?wt) (duration b) = Some 0"
    using assms(1) by (simp add: w1 js_rem_small)
  have p: "playAudio ?r1 ?wt = (None, visualize ?r1 (started ?r1 b 0 ?wt))"
    by (rule playAudio_ready [OF r1(1,2) z]) simp
  have so: "startedOffset (snd (playAudio ?r1 ?wt)) = Some 0"
    unfolding p by (simp add: startedOffset_def visualize_keeps started_fields)
  have cl: "step PlayPauseClick (?r1, ?wt) =
      (rerender ?r1 (snd (playAudio ?r1 ?wt)), snd (playAudio ?r1 ?wt))"
    using r1 by (simp add: Let_def)
  have so': "startedOffset (snd (step PlayPauseClick (?r1, ?wt))) = Some 0"
    unfolding cl snd_conv by (rule so)
  have f: "sources ?w1 = haltedSources w" "edges ?w1 = cutEdges w" "frames ?w1 = keptFrames w"
    "pausedTimeRef ?w1 = 0"
    unfolding w1 by simp_all
  have en: "pausedTimeRef (dispatchEnded k (?w1\<lparr>currentTime := te\<rparr>)) = 0
      \<and> \<not> isPlayingState (dispatchEnded k (?w1\<lparr>currentTime := te\<rparr>))"
    using f(4) ip by (intro ended_when_stopped) simp_all
  have held: "outgoing (SourceNode s) ?w1 = []
          \<and> (s < length (sources w) \<and> startOffset (sources w ! s) \<noteq> None \<longrightarrow>
               stopped (sources ?w1 ! s))
          \<and> (n \<noteq> SourceNode s \<longrightarrow> outgoing n ?w1 = outgoing n w)"
    if sr: "sourceRef w = Some s"
  proof -
    have e: "edges ?w1 = filter (\<lambda>e. fst e \<noteq> SourceNode s) (edges w)"
      using f(2) sr by (simp add: cutEdges_def)
    have h: "stopped (sources ?w1 ! s)"
      if "s < length (sources w) \<and> startOffset (sources w ! s) \<noteq> None"
      using haltedSources_stopped [OF sr] that f(1) by simp
    show ?thesis
      using outgoing_cut_self [OF e] outgoing_cut_other [OF e, of n] h by blast
  qed
  have main: "fst (audioBufferEffect (commit (r\<lparr>audioBuffer := Some b\<rparr>) w)) = None
     \<and> audioBuffer (fst c1) = Some b
     \<and> isPlayingState (snd c1) = False \<and> isPlaying (fst c1) = False
     \<and> pausedTimeRef (snd c1) = 0
     \<and> sources (snd c1) = haltedSources w
     \<and> edges (snd c1) = cutEdges w
     \<and> frames (snd c1) = keptFrames w
     \<and> fst (playAudio (fst c1) ((snd c1)\<lparr>currentTime := t\<rparr>)) = None
     \<and> startedOffset (snd (step PlayPauseClick (fst c1, (snd c1)\<lparr>currentTime := t\<rparr>)))
         = Some 0
     \<and> pausedTimeRef (dispatchEnded k ((snd c1)\<lparr>currentTime := te\<rparr>)) = 0
     \<and> isPlayingState (dispatchEnded k ((snd c1)\<lparr>currentTime := te\<rparr>)) = False"
    using r1 so' p ip f en by (simp add: audioBufferEffect_fst)
  show ?thesis
    using main held by blast
qed

theorem new_buffer_forces_stop_witness:
  "isPlayingState (snd exampleReplaced) = False
   \<and> isPlaying (fst exampleReplaced) = False
   \<and> audioBuffer (fst exampleReplaced) = Some \<lparr>duration = 3\<rparr>
   \<and> pausedTimeRef (snd exampleReplaced) = 0
   \<and> fst (playAudio (fst exampleReplaced) ((snd exampleReplaced)\<lparr>currentTime := 4\<rparr>)) = None
   \<and> startedOffset
        (snd (step PlayPauseClick
               (fst exampleReplaced, (snd exampleReplaced)\<lparr>currentTime := 4\<rparr>)))
       = Some 0
   \<and> outgoing (SourceNode 0) (snd exampleReplaced) = []
   \<and> stopped (sources (snd exampleReplaced) ! 0)
   \<and> outgoing (FilterNode 0) (snd exampleReplaced)
       = outgoing (FilterNode 0) (examplePlayed\<lparr>currentTime := 2\<rparr>)"
proof -
  have a: "0 < duration \<lparr>duration = 3\<rparr>" by simp
  have b: "audioContext (rerender exampleRender examplePlayed) = Some Ctx"
    by (simp add: rerender_def exampleRender_def)
  have c: "sourceRef (examplePlayed\<lparr>currentTime := 2\<rparr>) = Some 0
      \<and> 0 < length (sources (examplePlayed\<lparr>currentTime := 2\<rparr>))
      \<and> startOffset (sources (examplePlayed\<lparr>currentTime := 2\<rparr>) ! 0) \<noteq> None"
    by code_simp
  have d: "FilterNode 0 \<noteq> SourceNode 0" by simp
  show ?thesis
    using new_buffer_forces_stop [OF a b exampleReplaced_def, of 4 0 2 0 "FilterNode 0"] c d
    by blast
qed

subsection \<open>What teardown disconnects\<close>

text \<open>
  Claim C4 does not hold as stated: after Play and Pause the filter and the analyser of
  the first session still have their outgoing connections, and they keep them when the
  next click builds the graph of the second session.
\<close>

theorem graph_teardown_counterexample:
  "outgoing (FilterNode 0) (snd (run [PlayPauseClick, Elapse 2, PlayPauseClick] exampleMounted))
     = [(FilterNode 0, AnalyserNode 0)]
   \<and> outgoing (AnalyserNode 0)
        (snd (run [PlayPauseClick, Elapse 2, PlayPauseClick] exampleMounted))
     = [(AnalyserNode 0, Destination)]
   \<and> edges (snd (run [PlayPauseClick, Elapse 2, PlayPauseClick, Elapse 1, PlayPauseClick]
         exampleMounted))
     = [(FilterNode 0, AnalyserNode 0), (AnalyserNode 0, Destination),
        (SourceNode 1, FilterNode 1), (FilterNode 1, AnalyserNode 1),
        (AnalyserNode 1, Destination)]"
  by code_simp

text \<open>
  Claim C4, amended. \<open>stopAudio\<close>, the effect on the buffer, and a \<open>pauseAudio\<close> that
  passes its guard and throws nothing stop the source node held by \<open>sourceRef\<close> (for
  \<open>stopAudio\<close> and the effect: when it had been started, otherwise there is nothing to
  stop), remove every outgoing connection of that node, and leave the outgoing
  connections of every other node as they were.
\<close>

theorem teardown_disconnects_source_only:
  assumes "sourceRef w = Some s"
  shows "outgoing (SourceNode s) (snd (stopAudio w)) = []
     \<and> (s < length (sources w) \<and> startOffset (sources w ! s) \<noteq> None \<longrightarrow>
          stopped (sources (snd (stopAudio w)) ! s))
     \<and> (n \<noteq> SourceNode s \<longrightarrow> outgoing n (snd (stopAudio w)) = outgoing n w)
     \<and> outgoing (SourceNode s) (snd (audioBufferEffect w)) = []
     \<and> (s < length (sources w) \<and> startOffset (sources w ! s) \<noteq> None \<longrightarrow>
          stopped (sources (snd (audioBufferEffect w)) ! s))
     \<and> (n \<noteq> SourceNode s \<longrightarrow> outgoing n (snd (audioBufferEffect w)) = outgoing n w)
     \<and> (isPlaying r \<and> audioContext r \<noteq> None \<and> fst (pauseAudio r w) = None \<longrightarrow>
          outgoing (SourceNode s) (snd (pauseAudio r w)) = []
          \<and> (s < length (sources w) \<longrightarrow> stopped (sources (snd (pauseAudio r w)) ! s))
          \<and> (n \<noteq> SourceNode s \<longrightarrow> outgoing n (snd (pauseAudio r w)) = outgoing n w))"
proof -
  have st: "edges (snd (stopAudio w)) = filter (\<lambda>e. fst e \<noteq> SourceNode s) (edges w)"
    by (simp add: stopAudio_snd cutEdges_def assms)
  have hs: "stopped (sources (snd (stopAudio w)) ! s)"
    if "s < length (sources w) \<and> startOffset (sources w ! s) \<noteq> None"
    using haltedSources_stopped [OF assms] that by (simp add: stopAudio_snd)
  have pa: "edges (snd (pauseAudio r w)) = filter (\<lambda>e. fst e \<noteq> SourceNode s) (edges w)
      \<and> (s < length (sources w) \<longrightarrow> stopped (sources (snd (pauseAudio r w)) ! s))"
    if "isPlaying r \<and> audioContext r \<noteq> None \<and> fst (pauseAudio r w) = None"
  proof (cases rule: pauseAudio_cases [where r = r and w = w])
    case idle
    then show ?thesis using that assms by simp
  next
    case (thrown e)
    then show ?thesis using that by simp
  next
    case (paused s')
    then show ?thesis using assms by simp
  qed
  have pe: "edges (snd (pauseAudio r w)) = filter (\<lambda>e. fst e \<noteq> SourceNode s) (edges w)"
    if "isPlaying r \<and> audioContext r \<noteq> None \<and> fst (pauseAudio r w) = None"
    using pa [OF that] by blast
  have sb: "edges (snd (audioBufferEffect w)) = filter (\<lambda>e. fst e \<noteq> SourceNode s) (edges w)"
    using st by (simp add: audioBufferEffect_snd)
  have hb: "stopped (sources (snd (audioBufferEffect w)) ! s)"
    if "s < length (sources w) \<and> startOffset (sources w ! s) \<noteq> None"
    using hs [OF that] by (simp add: audioBufferEffect_snd)
  show ?thesis
    using outgoing_cut_self [OF st] outgoing_cut_other [OF st, of n]
      outgoing_cut_self [OF sb] outgoing_cut_other [OF sb, of n]
      outgoing_cut_self [OF pe] outgoing_cut_other [OF pe, of n]
      hs hb pa
    by blast
qed

theorem teardown_disconnects_source_only_witness:
  "outgoing (SourceNode 0) (snd (stopAudio examplePlayed)) = []
   \<and> stopped (sources (snd (stopAudio examplePlayed)) ! 0)
   \<and> outgoing (FilterNode 0) (snd (stopAudio examplePlayed)) = outgoing (FilterNode 0) examplePlayed
   \<and> outgoing (SourceNode 0) (snd (audioBufferEffect examplePlayed)) = []
   \<and> stopped (sources (snd (audioBufferEffect examplePlayed)) ! 0)
   \<and> outgoing (SourceNode 0) (snd (pauseAudio (rerender exampleRender examplePlayed) examplePlayed))
       = []
   \<and> stopped (sources (snd (pauseAudio (rerender exampleRender examplePlayed) examplePlayed)) ! 0)
   \<and> outgoing (FilterNode 0) (snd (pauseAudio (rerender exampleRender examplePlayed) examplePlayed))
       = outgoing (FilterNode 0) examplePlayed"
proof -
  have a: "sourceRef examplePlayed = Some 0" by code_simp
  have b: "isPlaying (rerender exampleRender examplePlayed)
      \<and> audioContext (rerender exampleRender examplePlayed) \<noteq> None
      \<and> fst (pauseAudio (rerender exampleRender examplePlayed) examplePlayed) = None"
    by code_simp
  have c: "FilterNode 0 \<noteq> SourceNode 0" by simp
  have d: "0 < length (sources examplePlayed) \<and> startOffset (sources examplePlayed ! 0) \<noteq> None"
    by code_simp
  show ?thesis
    using teardown_disconnects_source_only [OF a, of "FilterNode 0" "rerender exampleRender examplePlayed"] b c d
    by blast
qed

subsection \<open>The visualization loop\<close>

text \<open>
  Claim C5. Whatever events the mounted component handles, in whatever order, no
  rendering pass of \<open>draw\<close> is ever executed and no animation frame callback is ever
  pending. So no pass runs while \<open>isPlaying\<close> is false, and after a pause or a natural
  end no callback is scheduled or executed. The reason is the closure: \<open>playAudio\<close> is
  the handler of the button only in a render whose \<open>isPlaying\<close> is false, and the \<open>draw\<close>
  it reaches through \<open>visualize\<close> reads that same constant and returns at line 120.
\<close>

theorem visualization_never_paints:
  "frames (snd (run es (mount b c l (platform0 t st lg cv)))) = []
   \<and> paints (snd (run es (mount b c l (platform0 t st lg cv)))) = []"
  by (rule run_quiet) (simp_all add: mount_fields)

theorem visualization_never_paints_witness:
  "frames (snd (run [PlayPauseClick, AnimationFrame, Elapse 2, PlayPauseClick, AnimationFrame]
       (mount (Some exampleBuffer) (Some Ctx) 10 (platform0 0 Running False True)))) = []
   \<and> paints (snd (run [PlayPauseClick, AnimationFrame, Elapse 2, PlayPauseClick, AnimationFrame]
       (mount (Some exampleBuffer) (Some Ctx) 10 (platform0 0 Running False True)))) = []"
  by (rule visualization_never_paints)

subsection \<open>The range of the paused offset\<close>

text \<open>
  Claim C6 does not hold as stated: a Pause click handled 5.5 seconds after Play on a
  buffer of 5 seconds, before \<open>ended\<close> has been dispatched, stores 5.5 in
  \<open>pausedTimeRef\<close>, which is not below the duration.
\<close>

theorem paused_offset_counterexample:
  "audioBuffer (fst exampleLatePause) = Some \<lparr>duration = 5\<rparr>
   \<and> pausedTimeRef (snd exampleLatePause) = 5.5
   \<and> \<not> pausedTimeRef (snd exampleLatePause) < 5"
  by code_simp

text \<open>
  Claim C6, amended. In every run of the component mounted on a context whose clock is
  not negative, \<open>pausedTimeRef\<close> is never negative; and in a render with a buffer of
  positive duration and a context, \<open>playAudio\<close> throws nothing and starts its source at
  \<open>pausedTimeRef\<close> \<open>%\<close> the duration, which is at least 0 and below the duration.
\<close>

theorem paused_offset_nonneg:
  assumes "0 \<le> t" "(r, w) = run es (mount b0 c0 l (platform0 t st lg cv))"
  shows "0 \<le> pausedTimeRef w
     \<and> (audioBuffer r = Some b \<and> 0 < duration b \<and> audioContext r = Some c \<longrightarrow>
          (\<exists>off. js_rem (pausedTimeRef w) (duration b) = Some off
             \<and> 0 \<le> off \<and> off < duration b
             \<and> fst (playAudio r w) = None
             \<and> startedOffset (snd (playAudio r w)) = Some off))"
proof -
  have w: "w = snd (run es (mount b0 c0 l (platform0 t st lg cv)))"
    using assms(2) by (metis snd_conv)
  have nn: "0 \<le> pausedTimeRef w"
    unfolding w using run_times [of "mount b0 c0 l (platform0 t st lg cv)" es] assms(1)
    by (simp add: mount_fields)
  have "\<exists>off. js_rem (pausedTimeRef w) (duration b) = Some off
             \<and> 0 \<le> off \<and> off < duration b
             \<and> fst (playAudio r w) = None
             \<and> startedOffset (snd (playAudio r w)) = Some off"
    if a: "audioBuffer r = Some b \<and> 0 < duration b \<and> audioContext r = Some c"
  proof -
    obtain off where off:
      "js_rem (pausedTimeRef w) (duration b) = Some off" "0 \<le> off" "off < duration b"
      using js_rem_range [OF nn] a by blast
    have p: "playAudio r w = (None, visualize r (started r b off w))"
      using a by (intro playAudio_ready [OF _ _ off(1,2)]) simp_all
    have "startedOffset (snd (playAudio r w)) = Some off"
      unfolding p by (simp add: startedOffset_def visualize_keeps started_fields)
    then show ?thesis using off p by simp
  qed
  then show ?thesis using nn by blast
qed

theorem paused_offset_nonneg_witness:
  "0 \<le> pausedTimeRef (snd exampleLatePause)
   \<and> (\<exists>off. js_rem (pausedTimeRef (snd exampleLatePause)) (duration exampleBuffer) = Some off
         \<and> 0 \<le> off \<and> off < duration exampleBuffer
         \<and> fst (playAudio (fst exampleLatePause) (snd exampleLatePause)) = None
         \<and> startedOffset (snd (playAudio (fst exampleLatePause) (snd exampleLatePause)))
             = Some off)"
proof -
  have a: "(0::real) \<le> 0" by simp
  have b: "(fst exampleLatePause, snd exampleLatePause)
      = run [PlayPauseClick, Elapse 5.5, PlayPauseClick]
          (mount (Some exampleBuffer) (Some Ctx) 10 (platform0 0 Running False True))"
    by (simp add: exampleLatePause_def exampleMounted_def)
  have c: "audioBuffer (fst exampleLatePause) = Some exampleBuffer
      \<and> 0 < duration exampleBuffer \<and> audioContext (fst exampleLatePause) = Some Ctx"
    by code_simp
  show ?thesis
    using paused_offset_nonneg [OF a b, of exampleBuffer Ctx] c by blast
qed

end
